theory Spec2Isabelle
  imports Main "HOL-Library.Stream"
begin

section \<open>The Compal CH7465LG client: session, RPC primitives, lifecycle, scanner\<close>

text \<open>
  The embedding follows \<^verbatim>\<open>src/compal/__init__.py\<close>. The classes \<^verbatim>\<open>Compal\<close>,
  \<^verbatim>\<open>BackupRestore\<close> and \<^verbatim>\<open>FuncScanner\<close> become functions that take the object
  state and return it updated; a raised exception is the \<open>Inl\<close> branch of a sum.
  Calls to the logger have no effect on any value and are left out.
\<close>

subsection \<open>Python values and dictionaries\<close>

text \<open>
  The members of the enumerations \<^verbatim>\<open>Get\<close> and \<^verbatim>\<open>Set\<close> (module
  \<^verbatim>\<open>compal.functions\<close>) that the client names. Only the names matter here: a
  member is passed to the device as the value of the field \<^verbatim>\<open>fun\<close>.
\<close>

datatype get_fun =
    CM_SYSTEM_INFO | DEFAULTVALUE | FORWARDING | GLOBALSETTINGS | LANGSETLIST
  | MULTILANG | PING_RESULT | TRACEROUTE_RESULT | WIRELESSBASIC

datatype set_fun =
    DHCP_V4 | DHCP_V6 | DIAGNOSTICS_CANCEL | FACTORY_RESET | FIREWALL
  | INSTALL_DONE | LANGUAGE | LOGIN | LOGOUT | MTU_SIZE | PING_TEST
  | PORT_FORWARDING | REBOOT | REMOTE_ACCESS | STATIC_DHCP_LEASE | TRACEROUTE
  | UPNP_STATUS | WIFI_SETTINGS

text \<open>The values that occur in the form fields of a request.\<close>

datatype pyval = PNone | PStr string | PInt int | PGet get_fun | PSet set_fun

text \<open>
  A Python \<^verbatim>\<open>dict\<close> or \<^verbatim>\<open>OrderedDict\<close> keeps its keys in insertion order: an
  association list. Assigning to a key that is present replaces the value where the
  key stands; a new key goes to the end.
\<close>

type_synonym dict = "(string \<times> pyval) list"

fun dict_setitem :: "dict \<Rightarrow> string \<Rightarrow> pyval \<Rightarrow> dict" where
  "dict_setitem [] k v = [(k, v)]"
| "dict_setitem ((k', v') # d) k v =
     (if k' = k then (k, v) # d else (k', v') # dict_setitem d k v)"

definition dict_get :: "dict \<Rightarrow> string \<Rightarrow> pyval option" where
  "dict_get d k = map_of d k"

definition dict_contains :: "dict \<Rightarrow> string \<Rightarrow> bool" where
  "dict_contains d k = (dict_get d k \<noteq> None)"

definition dict_del :: "dict \<Rightarrow> string \<Rightarrow> dict" where
  "dict_del d k = filter (\<lambda>kv. fst kv \<noteq> k) d"

text \<open>\<^verbatim>\<open>d.update(other)\<close>: the items of \<open>other\<close> are assigned in their order.\<close>

fun dict_update :: "dict \<Rightarrow> dict \<Rightarrow> dict" where
  "dict_update d [] = d"
| "dict_update d ((k, v) # other) = dict_update (dict_setitem d k v) other"

definition of_opt_str :: "string option \<Rightarrow> pyval" where
  "of_opt_str s = (case s of None \<Rightarrow> PNone | Some t \<Rightarrow> PStr t)"

definition truthy :: "string option \<Rightarrow> bool" where
  "truthy s = (case s of None \<Rightarrow> False | Some t \<Rightarrow> t \<noteq> [])"

text \<open>Decimal formatting, as \<^verbatim>\<open>"{}".format(n)\<close> and \<^verbatim>\<open>"%i" % n\<close> do.\<close>

fun str_nat :: "nat \<Rightarrow> string" where
  "str_nat n =
     (if n < 10 then [''0123456789'' ! n]
      else str_nat (n div 10) @ [''0123456789'' ! (n mod 10)])"

declare str_nat.simps [simp del]

definition str_int :: "int \<Rightarrow> string" where
  "str_int i = (if i < 0 then ''-'' @ str_nat (nat (- i)) else str_nat (nat i))"

definition endswith :: "string \<Rightarrow> string \<Rightarrow> bool" where
  "endswith s suffix = (length suffix \<le> length s \<and> drop (length s - length suffix) s = suffix)"

subsection \<open>Requests, responses and the device\<close>

datatype body = Form dict | Raw string

record request =
  req_method :: string
  req_url :: string
  req_body :: body
  req_headers :: "(string \<times> string) list"
  allow_redirects :: bool
  req_timeout :: "int option"

record response =
  status_code :: int
  res_url :: string
  headers :: "string \<rightharpoonup> string"
  cookies :: "string \<rightharpoonup> string"
  res_text :: string

text \<open>
  What the library \<^verbatim>\<open>requests\<close> can raise from a request. The client names
  \<^verbatim>\<open>ReadTimeout\<close> only; the library derives no class from it.
\<close>

datatype transport_error = ReadTimeout | ConnectTimeout | ConnectionError | TooManyRedirects

datatype error =
    ValueError string
  | KeyError string
  | TypeError string
  | RequestException transport_error

datatype outcome = Resp response | Fail transport_error

text \<open>
  The object \<^verbatim>\<open>Compal\<close> with the part of its \<^verbatim>\<open>requests.Session\<close> that the
  client uses. The device is the stream \<open>wire\<close> of the outcomes of the exchanges
  still to come, so that every behaviour of a device is some stream; \<open>sent\<close> is the
  log of the requests issued so far, oldest first.
\<close>

record compal =
  router_ip :: string
  timeout :: int
  key :: "string option"
  session_token :: "string option"
  session_cookies :: "string \<rightharpoonup> string"
  wire :: "outcome stream"
  sent :: "request list"

subsection \<open>Transport Session and Token Interceptor\<close>

definition url :: "compal \<Rightarrow> string \<Rightarrow> string" where
  "url self path =
     ''http://'' @ router_ip self @ ''/'' @ dropWhile (\<lambda>c. c = CHR ''/'') path"

text \<open>
  \<^verbatim>\<open>token_handler\<close> assigns the result of \<^verbatim>\<open>res.cookies.get('sessionToken')\<close>, which
  is \<^verbatim>\<open>None\<close> without such a cookie. On status 302 the arguments of the log call
  are evaluated, and \<^verbatim>\<open>res.headers['Location']\<close> raises \<^verbatim>\<open>KeyError\<close> when the
  header is missing (the header dictionary looks keys up in lower case).
\<close>

definition token_handler :: "compal \<Rightarrow> response \<Rightarrow> (error + unit) \<times> compal" where
  "token_handler self res =
     (let self = self\<lparr>session_token := cookies res ''sessionToken''\<rparr> in
      if status_code res = 302 then
        (case headers res ''Location'' of
           None \<Rightarrow> (Inl (KeyError ''location''), self)
         | Some _ \<Rightarrow> (Inr (), self))
      else (Inr (), self))"

text \<open>
  \<^verbatim>\<open>self.session.post\<close>: one exchange with the device. The request is logged, the
  next outcome is taken from the wire, and a response passes through the response
  hook \<open>token_handler\<close> before it is returned. Redirects that the library would
  follow by itself are not modelled: an outcome stands for the response the library
  hands back.
\<close>

definition session_post :: "compal \<Rightarrow> request \<Rightarrow> (error + response) \<times> compal" where
  "session_post self req =
     (let out = shd (wire self);
          self = self\<lparr>wire := stl (wire self), sent := sent self @ [req]\<rparr> in
      case out of
        Fail e \<Rightarrow> (Inl (RequestException e), self)
      | Resp res \<Rightarrow>
          (case token_handler self res of
             (Inl e, self) \<Rightarrow> (Inl e, self)
           | (Inr _, self) \<Rightarrow> (Inr res, self)))"

text \<open>
  What the device receives of a form dictionary. The library \<^verbatim>\<open>requests\<close> encodes
  the dictionary passed as \<^verbatim>\<open>data\<close> field by field, in the order of the dictionary,
  and leaves out every field whose value is \<^verbatim>\<open>None\<close>. The text into which a value
  is turned is not modelled. A raw body has no fields.
\<close>

definition encode_params :: "dict \<Rightarrow> dict" where
  "encode_params data = filter (\<lambda>kv. snd kv \<noteq> PNone) data"

definition serialized :: "request \<Rightarrow> dict" where
  "serialized req = (case req_body req of Form data \<Rightarrow> encode_params data | Raw _ \<Rightarrow> [])"

text \<open>
  The first lines of \<^verbatim>\<open>post\<close> (122 to 128) build the ordered dictionary
  \<^verbatim>\<open>data\<close>. The result is \<^verbatim>\<open>data\<close> together with the caller's dictionary,
  which \<^verbatim>\<open>_data.pop('fun')\<close> changes in place.
\<close>

definition post_data :: "compal \<Rightarrow> dict \<Rightarrow> dict \<times> dict" where
  "post_data self data0 =
     (let data = dict_setitem [] ''token'' (of_opt_str (session_token self));
          (data, data0) =
             (case dict_get data0 ''fun'' of
                Some f \<Rightarrow> (dict_setitem data ''fun'' f, dict_del data0 ''fun'')
              | None \<Rightarrow> (data, data0));
          data = dict_update data data0
      in (data, data0))"

text \<open>
  \<^verbatim>\<open>post\<close> returns the response, the object and the caller's dictionary. No caller
  in the module passes further keyword arguments, and they are left out.
\<close>

definition post :: "compal \<Rightarrow> string \<Rightarrow> dict \<Rightarrow> (error + response) \<times> compal \<times> dict" where
  "post self path data0 =
     (let (data, data0) = post_data self data0;
          (res, self) = session_post self
             \<lparr>req_method = ''POST'', req_url = url self path, req_body = Form data,
              req_headers = [], allow_redirects = False, req_timeout = Some (timeout self)\<rparr>
      in (res, self, data0))"

text \<open>
  \<^verbatim>\<open>post_binary\<close> issues its request and ends without a \<^verbatim>\<open>return\<close> statement:
  a call that raises nothing gives \<^verbatim>\<open>None\<close>. It passes neither a timeout nor
  \<^verbatim>\<open>allow_redirects\<close>, so the library's defaults hold.
\<close>

definition post_binary ::
    "compal \<Rightarrow> string \<Rightarrow> string \<Rightarrow> string \<Rightarrow> (error + response option) \<times> compal" where
  "post_binary self path binary_data filename =
     (let hdrs =
            [(''Content-Disposition'',
                ''form-data; name='' @ [CHR 0x22] @ ''file'' @ [CHR 0x22]
                  @ ''; filename='' @ [CHR 0x22] @ filename @ [CHR 0x22]),
             (''Content-Type'', ''application/octet-stream'')] in
      case session_post self
             \<lparr>req_method = ''POST'', req_url = url self path, req_body = Raw binary_data,
              req_headers = hdrs, allow_redirects = True, req_timeout = None\<rparr> of
        (Inl e, self) \<Rightarrow> (Inl e, self)
      | (Inr _, self) \<Rightarrow> (Inr None, self))"

subsection \<open>RPC primitives\<close>

definition xml_getter ::
    "compal \<Rightarrow> pyval \<Rightarrow> dict \<Rightarrow> (error + response) \<times> compal \<times> dict" where
  "xml_getter self fn params =
     (let params = dict_setitem params ''fun'' fn in
      post self ''/xml/getter.xml'' params)"

text \<open>
  \<^verbatim>\<open>xml_setter\<close> has the default \<^verbatim>\<open>params=None\<close>, and assigning an item to
  \<^verbatim>\<open>None\<close> raises \<^verbatim>\<open>TypeError\<close> before anything is sent.
\<close>

definition xml_setter ::
    "compal \<Rightarrow> pyval \<Rightarrow> dict option \<Rightarrow> (error + response) \<times> compal \<times> dict option" where
  "xml_setter self fn params =
     (case params of
        None \<Rightarrow>
          (Inl (TypeError ''NoneType object does not support item assignment''), self, None)
      | Some params \<Rightarrow>
          (let params = dict_setitem params ''fun'' fn;
               (res, self, params) = post self ''/xml/setter.xml'' params
           in (res, self, Some params)))"

subsection \<open>Login, reboot, factory reset\<close>

text \<open>
  \<^verbatim>\<open>urllib.parse.parse_qs\<close> belongs to the standard library and is a parameter of
  the model: it maps a body to a dictionary from names to the lists of their values.
\<close>

type_synonym qs_parser = "string \<Rightarrow> (string \<rightharpoonup> string list)"

definition login ::
    "qs_parser \<Rightarrow> compal \<Rightarrow> string option \<Rightarrow> (error + response) \<times> compal" where
  "login parse_qs self k =
     (case xml_setter self (PSet LOGIN)
             (Some [(''Username'', PStr ''admin''),
                    (''Password'', of_opt_str (if truthy k then k else key self))]) of
        (Inl e, self, _) \<Rightarrow> (Inl e, self)
      | (Inr res, self, _) \<Rightarrow>
          if status_code res \<noteq> 200 then
            (case headers res ''Location'' of
               None \<Rightarrow> (Inl (KeyError ''location''), self)
             | Some loc \<Rightarrow>
                 if endswith loc ''common_page/Access-denied.html''
                 then (Inl (ValueError ''Access denied. Still logged in somewhere else?''), self)
                 else (Inl (ValueError ''Login failed for unknown reason!''), self))
          else
            (let tokens = parse_qs (res_text res) in
             case tokens ''SID'' of
               None \<Rightarrow> (Inl (ValueError ''No valid session-Id received! Wrong password?''), self)
             | Some [] \<Rightarrow> (Inl (ValueError ''No valid session-Id received! Wrong password?''), self)
             | Some (token_sid # _) \<Rightarrow>
                 (Inr res, self\<lparr>session_cookies := (session_cookies self)(''SID'' \<mapsto> token_sid)\<rparr>)))"

definition reboot :: "compal \<Rightarrow> (error + response option) \<times> compal" where
  "reboot self =
     (case xml_setter self (PSet REBOOT) (Some []) of
        (Inl (RequestException ReadTimeout), self, _) \<Rightarrow> (Inr None, self)
      | (Inl e, self, _) \<Rightarrow> (Inl e, self)
      | (Inr res, self, _) \<Rightarrow> (Inr (Some res), self))"

definition factory_reset :: "compal \<Rightarrow> (error + response) \<times> compal" where
  "factory_reset self =
     (case xml_getter self (PGet DEFAULTVALUE) [] of
        (Inl e, self, _) \<Rightarrow> (Inl e, self)
      | (Inr default_settings, self, _) \<Rightarrow>
          (case xml_setter self (PSet FACTORY_RESET) (Some []) of
             (Inl (RequestException ReadTimeout), self, _) \<Rightarrow> (Inr default_settings, self)
           | (Inl e, self, _) \<Rightarrow> (Inl e, self)
           | (Inr _, self, _) \<Rightarrow> (Inr default_settings, self)))"

subsection \<open>Configuration restore\<close>

definition restore :: "compal \<Rightarrow> string \<Rightarrow> (error + response option) \<times> compal" where
  "restore modem data =
     (let res = post_binary modem
                  (''/xml/getter.xml?Restore='' @ str_int (int (length data)))
                  data ''Config_Restore.bin''
      in res)"

subsection \<open>Function Scanner\<close>

record func_scanner =
  current_pos :: int
  scan_key :: "string option"
  last_login :: int

definition is_valid_session :: "compal \<Rightarrow> (error + bool) \<times> compal" where
  "is_valid_session modem =
     (case xml_getter modem (PGet CM_SYSTEM_INFO) [] of
        (Inl e, modem, _) \<Rightarrow> (Inl e, modem)
      | (Inr res, modem, _) \<Rightarrow> (Inr (status_code res = 200), modem))"

text \<open>
  The truth value of a response is its property \<^verbatim>\<open>ok\<close>: false for a status from
  400 to 599. The test \<^verbatim>\<open>res.text is ''\<close> compares with the one empty string of the
  interpreter and is modelled as equality.
\<close>

definition response_ok :: "response \<Rightarrow> bool" where
  "response_ok res = (\<not> (400 \<le> status_code res \<and> status_code res < 600))"

text \<open>The end of the loop body: the test of the status, lines 746 to 749.\<close>

definition scan_status ::
    "response \<Rightarrow> compal \<Rightarrow> func_scanner \<Rightarrow> (error + response) \<times> compal \<times> func_scanner" where
  "scan_status res modem self =
     (if status_code res = 200
      then (Inr res, modem, self\<lparr>current_pos := current_pos self + 1\<rparr>)
      else (Inl (ValueError (''HTTP '' @ str_int (status_code res))), modem, self))"

text \<open>
  One pass through the body of the loop of \<^verbatim>\<open>scan\<close>. It gives the error raised, or
  the response \<^verbatim>\<open>res\<close> with which the condition of the loop is tested next; after
  \<^verbatim>\<open>continue\<close> that is the probe's response, whose text is empty.
\<close>

definition scan_body ::
    "qs_parser \<Rightarrow> compal \<Rightarrow> func_scanner \<Rightarrow> (error + response) \<times> compal \<times> func_scanner" where
  "scan_body parse_qs modem self =
     (case xml_getter modem (PInt (current_pos self)) [] of
        (Inl e, modem, _) \<Rightarrow> (Inl e, modem, self)
      | (Inr res, modem, _) \<Rightarrow>
          if res_text res = [] then
            (case is_valid_session modem of
               (Inl e, modem) \<Rightarrow> (Inl e, modem, self)
             | (Inr valid, modem) \<Rightarrow>
                 if \<not> valid then
                   (let self = self\<lparr>last_login := current_pos self\<rparr> in
                    case login parse_qs modem (scan_key self) of
                      (Inl e, modem) \<Rightarrow> (Inl e, modem, self)
                    | (Inr _, modem) \<Rightarrow> (Inr res, modem, self))
                 else scan_status res modem self)
          else scan_status res modem self)"

definition scan_cond :: "response option \<Rightarrow> bool" where
  "scan_cond res = (case res of None \<Rightarrow> True | Some r \<Rightarrow> \<not> response_ok r \<or> res_text r = [])"

text \<open>
  The loop may run for ever (a device that answers every probe with an empty body
  and accepts every login): a run that does not return has the value \<open>None\<close>.
\<close>

partial_function (option) scan_loop ::
    "qs_parser \<Rightarrow> response option \<Rightarrow> compal \<Rightarrow> func_scanner
       \<Rightarrow> ((error + response option) \<times> compal \<times> func_scanner) option" where
  "scan_loop parse_qs res modem self =
     (if scan_cond res then
        (case scan_body parse_qs modem self of
           (Inl e, modem, self) \<Rightarrow> Some (Inl e, modem, self)
         | (Inr r, modem, self) \<Rightarrow> scan_loop parse_qs (Some r) modem self)
      else Some (Inr res, modem, self))"

definition scan ::
    "qs_parser \<Rightarrow> compal \<Rightarrow> func_scanner
       \<Rightarrow> ((error + response option) \<times> compal \<times> func_scanner) option" where
  "scan parse_qs modem self = scan_loop parse_qs None modem self"

subsection \<open>Concrete devices for the examples\<close>

text \<open>
  A response without headers and cookies, a device that answers with the given
  outcomes and then refuses every connection, a client of that device whose session
  holds the token \<open>1234\<close>, a scanner at position 7, and a parser that knows one body.
\<close>

definition plain_response :: "int \<Rightarrow> string \<Rightarrow> response" where
  "plain_response status body =
     \<lparr>status_code = status, res_url = ''http://192.168.0.1/xml/getter.xml'',
      headers = Map.empty, cookies = Map.empty, res_text = body\<rparr>"

definition token_response :: "int \<Rightarrow> string \<Rightarrow> string \<Rightarrow> response" where
  "token_response status body tok =
     (plain_response status body)\<lparr>cookies := [''sessionToken'' \<mapsto> tok]\<rparr>"

definition device :: "outcome list \<Rightarrow> outcome stream" where
  "device outs = outs @- sconst (Fail ConnectionError)"

definition client :: "outcome list \<Rightarrow> compal" where
  "client outs =
     \<lparr>router_ip = ''192.168.0.1'', timeout = 10, key = Some ''secret'',
      session_token = Some ''1234'', session_cookies = Map.empty,
      wire = device outs, sent = []\<rparr>"

definition scanner7 :: func_scanner where
  "scanner7 = \<lparr>current_pos = 7, scan_key = Some ''secret'', last_login = - 1\<rparr>"

definition sid_parser :: qs_parser where
  "sid_parser s = (if s = ''SID=abc123'' then [''SID'' \<mapsto> [''abc123'']] else Map.empty)"

text \<open>
  A redirect, and the device of the scenario in which the session has gone stale: an
  empty body for the probe, a redirect for the validity probe, a successful login,
  and a body for the repeated probe.
\<close>

definition redirect_response :: "string \<Rightarrow> response" where
  "redirect_response loc = (plain_response 302 [])\<lparr>headers := [''Location'' \<mapsto> loc]\<rparr>"

definition stale_device :: "outcome list" where
  "stale_device =
     [Resp (plain_response 200 []),
      Resp (redirect_response ''../common_page/login.html''),
      Resp (plain_response 200 ''SID=abc123''),
      Resp (plain_response 200 ''<x/>'')]"

text \<open>
  The device that answers the probe of position 7 with an empty body under a valid
  session, and the probe of position 8 with status 500.
\<close>

definition later_error_device :: "outcome list" where
  "later_error_device =
     [Resp (plain_response 200 []),
      Resp (plain_response 200 ''info''),
      Resp (plain_response 500 ''oops'')]"

section \<open>Properties\<close>

subsection \<open>Evaluation and basic facts\<close>

lemmas client_defs = client_def device_def plain_response_def token_response_def
  scanner7_def sid_parser_def redirect_response_def stale_device_def
  later_error_device_def

lemmas call_defs = xml_getter_def xml_setter_def post_def post_data_def session_post_def
  token_handler_def url_def of_opt_str_def dict_get_def dict_del_def

lemma dict_del_setitem: "dict_del (dict_setitem d k v) k = dict_del d k"
  by (induction d) (auto simp: dict_del_def)

lemma dict_get_setitem: "dict_get (dict_setitem d k v) k = Some v"
  by (induction d) (auto simp: dict_get_def)

lemma dict_del_absent: "dict_get d k = None \<Longrightarrow> dict_del d k = d"
  by (induction d) (auto simp: dict_del_def dict_get_def split: if_splits)

lemma dict_get_del: "dict_get (dict_del d k) k = None"
  by (induction d) (auto simp: dict_del_def dict_get_def)

lemma dict_get_del_other: "k' \<noteq> k \<Longrightarrow> dict_get (dict_del d k) k' = dict_get d k'"
  by (induction d) (auto simp: dict_del_def dict_get_def)

lemma post_data_snd: "snd (post_data self d) = dict_del d ''fun''"
  by (simp add: post_data_def Let_def dict_del_absent split: option.splits)

lemma session_post_sent: "sent (snd (session_post self req)) = sent self @ [req]"
  by (simp add: session_post_def token_handler_def Let_def split: outcome.splits option.splits)

lemma session_post_wire: "wire (snd (session_post self req)) = stl (wire self)"
  by (simp add: session_post_def token_handler_def Let_def split: outcome.splits option.splits)

lemma post_params: "snd (snd (post self path d)) = dict_del d ''fun''"
  using post_data_snd [of self d] by (auto simp: post_def Let_def split: prod.splits)

lemma post_sent:
  "sent (fst (snd (post self path d))) = sent self @
     [\<lparr>req_method = ''POST'', req_url = url self path, req_body = Form (fst (post_data self d)),
       req_headers = [], allow_redirects = False, req_timeout = Some (timeout self)\<rparr>]"
  using session_post_sent [of self]
  by (simp add: post_def Let_def split: prod.splits) (metis snd_conv)

lemma dict_setitem_absent: "k \<notin> fst ` set d \<Longrightarrow> dict_setitem d k v = d @ [(k, v)]"
  by (induction d) auto

lemma dict_update_token:
  "distinct (map fst d) \<Longrightarrow> fst ` set F \<inter> fst ` set d = {} \<Longrightarrow> t \<notin> fst ` set F \<Longrightarrow>
   dict_update ((t, tv) # F) d =
     (t, case map_of d t of None \<Rightarrow> tv | Some v \<Rightarrow> v) # F @ filter (\<lambda>kv. fst kv \<noteq> t) d"
proof (induction d arbitrary: tv F)
  case Nil
  then show ?case by simp
next
  case (Cons kv d)
  obtain k v where kv: "kv = (k, v)" by (cases kv)
  show ?case
  proof (cases "k = t")
    case True
    have absent: "map_of d t = None"
      using Cons.prems(1) kv True by (simp add: map_of_eq_None_iff)
    have "dict_update ((t, tv) # F) (kv # d) = dict_update ((t, v) # F) d"
      using kv True by simp
    also have "\<dots> = (t, v) # F @ filter (\<lambda>kv. fst kv \<noteq> t) d"
      using Cons.IH [of F v] Cons.prems absent kv by auto
    finally show ?thesis using kv True by simp
  next
    case False
    have kF: "k \<notin> fst ` set F" using Cons.prems(2) kv by auto
    have "dict_update ((t, tv) # F) (kv # d) = dict_update ((t, tv) # (F @ [(k, v)])) d"
      using kv False kF by (simp add: dict_setitem_absent)
    also have "\<dots> = (t, case map_of d t of None \<Rightarrow> tv | Some v \<Rightarrow> v)
                       # (F @ [(k, v)]) @ filter (\<lambda>kv. fst kv \<noteq> t) d"
    proof (rule Cons.IH)
      show "distinct (map fst d)" using Cons.prems(1) by simp
      show "fst ` set (F @ [(k, v)]) \<inter> fst ` set d = {}"
        using Cons.prems(1,2) kv by auto
      show "t \<notin> fst ` set (F @ [(k, v)])" using Cons.prems(3) False by auto
    qed
    finally show ?thesis using kv False by simp
  qed
qed

lemma dict_del_keys: "fst ` set (dict_del d k) = fst ` set d - {k}"
  by (auto simp: dict_del_def)

lemma dict_del_distinct: "distinct (map fst d) \<Longrightarrow> distinct (map fst (dict_del d k))"
  by (simp add: dict_del_def distinct_map_filter)

lemma map_of_dict_del: "k' \<noteq> k \<Longrightarrow> map_of (dict_del d k) k' = map_of d k'"
  by (induction d) (auto simp: dict_del_def)

lemma post_data_fields:
  assumes "distinct (map fst d)"
  shows "fst (post_data self d) =
     (''token'', case dict_get d ''token'' of
                   None \<Rightarrow> of_opt_str (session_token self) | Some t \<Rightarrow> t)
     # (case dict_get d ''fun'' of None \<Rightarrow> [] | Some f \<Rightarrow> [(''fun'', f)])
     @ filter (\<lambda>kv. fst kv \<noteq> ''fun'' \<and> fst kv \<noteq> ''token'') d"
proof (cases "dict_get d ''fun''")
  case None
  then have nf: "''fun'' \<notin> fst ` set d"
    by (simp add: dict_get_def map_of_eq_None_iff)
  have f: "filter (\<lambda>kv. fst kv \<noteq> ''token'') d =
           filter (\<lambda>kv. fst kv \<noteq> ''fun'' \<and> fst kv \<noteq> ''token'') d"
    using nf by (induction d) auto
  show ?thesis
    using None dict_update_token [of d "[]" "''token''" "of_opt_str (session_token self)"] assms
    by (simp add: post_data_def dict_get_def f)
next
  case (Some fv)
  have f: "filter (\<lambda>kv. fst kv \<noteq> ''token'') (dict_del d ''fun'') =
           filter (\<lambda>kv. fst kv \<noteq> ''fun'' \<and> fst kv \<noteq> ''token'') d"
    by (simp add: dict_del_def)
  have "dict_update ((''token'', of_opt_str (session_token self)) # [(''fun'', fv)]) (dict_del d ''fun'') =
     (''token'', case map_of (dict_del d ''fun'') ''token'' of
                   None \<Rightarrow> of_opt_str (session_token self) | Some v \<Rightarrow> v)
     # [(''fun'', fv)] @ filter (\<lambda>kv. fst kv \<noteq> ''token'') (dict_del d ''fun'')"
    by (rule dict_update_token) (simp_all add: dict_del_distinct assms dict_del_keys)
  then show ?thesis
    using Some by (simp add: post_data_def dict_get_def f map_of_dict_del)
qed

lemma post_result:
  "fst (post self path d) =
     (case shd (wire self) of
        Fail e \<Rightarrow> Inl (RequestException e)
      | Resp res \<Rightarrow>
          if status_code res = 302 \<and> headers res ''Location'' = None
          then Inl (KeyError ''location'') else Inr res)"
  by (auto simp: post_def session_post_def token_handler_def Let_def
        split: prod.splits outcome.splits option.splits)

lemma post_wire: "wire (fst (snd (post self path d))) = stl (wire self)"
  using session_post_wire [of self]
  by (simp add: post_def Let_def split: prod.splits) (metis snd_conv)

lemma post_token:
  "session_token (fst (snd (post self path d))) =
     (case shd (wire self) of Fail e \<Rightarrow> session_token self
      | Resp res \<Rightarrow> cookies res ''sessionToken'')"
  by (auto simp: post_def session_post_def token_handler_def Let_def
        split: prod.splits outcome.splits option.splits)

lemma xml_getter_result:
  "fst (xml_getter self fn ps) =
     (case shd (wire self) of
        Fail e \<Rightarrow> Inl (RequestException e)
      | Resp res \<Rightarrow>
          if status_code res = 302 \<and> headers res ''Location'' = None
          then Inl (KeyError ''location'') else Inr res)"
  by (simp add: xml_getter_def post_result)

lemma xml_setter_fst:
  "fst (xml_setter self fn (Some ps)) =
   fst (post self ''/xml/setter.xml'' (dict_setitem ps ''fun'' fn))"
  by (simp add: xml_setter_def split: prod.splits)

lemma xml_setter_result:
  "fst (xml_setter self fn (Some ps)) =
     (case shd (wire self) of
        Fail e \<Rightarrow> Inl (RequestException e)
      | Resp res \<Rightarrow>
          if status_code res = 302 \<and> headers res ''Location'' = None
          then Inl (KeyError ''location'') else Inr res)"
  by (simp add: xml_setter_fst post_result)

lemma xml_getter_wire: "wire (fst (snd (xml_getter self fn ps))) = stl (wire self)"
  by (simp add: xml_getter_def post_wire)

lemma xml_setter_state:
  "fst (snd (xml_setter self fn (Some ps))) =
   fst (snd (post self ''/xml/setter.xml'' (dict_setitem ps ''fun'' fn)))"
  by (simp add: xml_setter_def split: prod.splits)

lemma xml_getter_token:
  "session_token (fst (snd (xml_getter self fn ps))) =
     (case shd (wire self) of Fail e \<Rightarrow> session_token self
      | Resp res \<Rightarrow> cookies res ''sessionToken'')"
  by (simp add: xml_getter_def post_token)

lemma xml_getter_empty_sent:
  "sent (fst (snd (xml_getter self fn []))) = sent self @
     [\<lparr>req_method = ''POST'', req_url = ''http://'' @ router_ip self @ ''/xml/getter.xml'',
       req_body = Form [(''token'', of_opt_str (session_token self)), (''fun'', fn)],
       req_headers = [], allow_redirects = False, req_timeout = Some (timeout self)\<rparr>]"
  by (simp add: xml_getter_def post_sent post_data_def dict_get_def dict_del_def url_def)

lemma xml_setter_empty_sent:
  "sent (fst (snd (xml_setter self fn (Some [])))) = sent self @
     [\<lparr>req_method = ''POST'', req_url = ''http://'' @ router_ip self @ ''/xml/setter.xml'',
       req_body = Form [(''token'', of_opt_str (session_token self)), (''fun'', fn)],
       req_headers = [], allow_redirects = False, req_timeout = Some (timeout self)\<rparr>]"
  by (simp add: xml_setter_state post_sent post_data_def dict_get_def dict_del_def url_def)

lemma xml_getter_Inr:
  "fst (xml_getter self fn ps) = Inr res \<Longrightarrow> shd (wire self) = Resp res"
  by (auto simp: xml_getter_result split: outcome.splits if_splits)

lemma scan_unfold:
  "scan parse_qs modem self =
     (case scan_body parse_qs modem self of
        (Inl e, modem, self) \<Rightarrow> Some (Inl e, modem, self)
      | (Inr r, modem, self) \<Rightarrow> scan_loop parse_qs (Some r) modem self)"
  unfolding scan_def by (subst scan_loop.simps) (simp add: scan_cond_def)

lemma scan_loop_pass:
  "scan_cond prev \<Longrightarrow>
   scan_loop parse_qs prev modem self =
     (case scan_body parse_qs modem self of
        (Inl e, modem, self) \<Rightarrow> Some (Inl e, modem, self)
      | (Inr r, modem, self) \<Rightarrow> scan_loop parse_qs (Some r) modem self)"
  by (subst scan_loop.simps) simp

lemma is_valid_session_sent:
  "sent (snd (is_valid_session modem)) = sent modem @
     [\<lparr>req_method = ''POST'', req_url = ''http://'' @ router_ip modem @ ''/xml/getter.xml'',
       req_body = Form [(''token'', of_opt_str (session_token modem)),
                        (''fun'', PGet CM_SYSTEM_INFO)],
       req_headers = [], allow_redirects = False, req_timeout = Some (timeout modem)\<rparr>]"
  using xml_getter_empty_sent [of modem "PGet CM_SYSTEM_INFO"]
  by (auto simp: is_valid_session_def split: prod.splits sum.splits)

lemma xml_setter_sent:
  "sent (fst (snd (xml_setter self fn (Some ps)))) = sent self @
     [\<lparr>req_method = ''POST'', req_url = url self ''/xml/setter.xml'',
       req_body = Form (fst (post_data self (dict_setitem ps ''fun'' fn))),
       req_headers = [], allow_redirects = False, req_timeout = Some (timeout self)\<rparr>]"
  by (simp add: xml_setter_state post_sent)

lemma login_sent:
  "\<exists>req. sent (snd (login parse_qs self k)) = sent self @ [req]"
proof -
  obtain r self1 d where
    x: "xml_setter self (PSet LOGIN)
          (Some [(''Username'', PStr ''admin''),
                 (''Password'', of_opt_str (if truthy k then k else key self))]) = (r, self1, d)"
    using prod_cases3 by blast
  have "\<exists>req. sent self1 = sent self @ [req]"
    using xml_setter_sent [of self "PSet LOGIN" "[(''Username'', PStr ''admin''),
                 (''Password'', of_opt_str (if truthy k then k else key self))]"] x by simp
  moreover have "sent (snd (login parse_qs self k)) = sent self1"
    using x by (auto simp: login_def Let_def split: sum.splits option.splits list.splits)
  ultimately show ?thesis by simp
qed

lemma scan_body_probe:
  "\<exists>rest. sent (fst (snd (scan_body parse_qs modem self))) = sent modem @
      \<lparr>req_method = ''POST'', req_url = ''http://'' @ router_ip modem @ ''/xml/getter.xml'',
       req_body = Form [(''token'', of_opt_str (session_token modem)),
                        (''fun'', PInt (current_pos self))],
       req_headers = [], allow_redirects = False, req_timeout = Some (timeout modem)\<rparr> # rest"
proof -
  obtain p m1 d where g: "xml_getter modem (PInt (current_pos self)) [] = (p, m1, d)"
    using prod_cases3 by blast
  have s1: "sent m1 = sent modem @
      [\<lparr>req_method = ''POST'', req_url = ''http://'' @ router_ip modem @ ''/xml/getter.xml'',
        req_body = Form [(''token'', of_opt_str (session_token modem)),
                         (''fun'', PInt (current_pos self))],
        req_headers = [], allow_redirects = False, req_timeout = Some (timeout modem)\<rparr>]"
    using xml_getter_empty_sent [of modem "PInt (current_pos self)"] g by simp
  obtain v m2 where i: "is_valid_session m1 = (v, m2)" by (cases "is_valid_session m1")
  have s2: "\<exists>req. sent m2 = sent m1 @ [req]"
    using is_valid_session_sent [of m1] i by simp
  obtain l m3 where lg: "login parse_qs m2 (scan_key self) = (l, m3)"
    by (cases "login parse_qs m2 (scan_key self)")
  have s3: "\<exists>req. sent m3 = sent m2 @ [req]"
    using login_sent [of parse_qs m2 "scan_key self"] lg by simp
  have "fst (snd (scan_body parse_qs modem self)) \<in> {m1, m2, m3}"
    using g i lg by (auto simp: scan_body_def scan_status_def Let_def split: sum.splits)
  then show ?thesis using s1 s2 s3 by auto
qed

lemma login_outcomes:
  assumes "xml_setter self (PSet LOGIN)
             (Some [(''Username'', PStr ''admin''),
                    (''Password'', of_opt_str (if truthy k then k else key self))])
           = (Inr res, self1, d)"
  shows "status_code res \<noteq> 200 \<Longrightarrow> headers res ''Location'' = Some loc \<Longrightarrow>
           endswith loc ''common_page/Access-denied.html'' \<Longrightarrow>
           login parse_qs self k =
             (Inl (ValueError ''Access denied. Still logged in somewhere else?''), self1)"
    and "status_code res \<noteq> 200 \<Longrightarrow> headers res ''Location'' = Some loc \<Longrightarrow>
           \<not> endswith loc ''common_page/Access-denied.html'' \<Longrightarrow>
           login parse_qs self k = (Inl (ValueError ''Login failed for unknown reason!''), self1)"
    and "status_code res \<noteq> 200 \<Longrightarrow> headers res ''Location'' = None \<Longrightarrow>
           login parse_qs self k = (Inl (KeyError ''location''), self1)"
    and "status_code res = 200 \<Longrightarrow>
           parse_qs (res_text res) ''SID'' = None \<or> parse_qs (res_text res) ''SID'' = Some [] \<Longrightarrow>
           login parse_qs self k =
             (Inl (ValueError ''No valid session-Id received! Wrong password?''), self1)"
    and "status_code res = 200 \<Longrightarrow> parse_qs (res_text res) ''SID'' = Some (sid # sids) \<Longrightarrow>
           login parse_qs self k =
             (Inr res, self1\<lparr>session_cookies := (session_cookies self1)(''SID'' \<mapsto> sid)\<rparr>)"
  using assms by (auto simp: login_def Let_def)

subsection \<open>Token Interceptor\<close>

text \<open>
  Claim C1 fails as stated: a response without the cookie \<^verbatim>\<open>sessionToken\<close> resets
  the stored token. The session holds the token \<open>1234\<close>, the response carries no
  cookie, and afterwards the token is \<^verbatim>\<open>None\<close>.
\<close>

theorem token_reset_counterexample:
  "session_token (client []) = Some ''1234'' \<and>
   cookies (plain_response 200 ''ok'') ''sessionToken'' = None \<and>
   session_token (snd (token_handler (client []) (plain_response 200 ''ok''))) = None"
  by (simp add: client_defs token_handler_def)

text \<open>
  Claim C1, amended: for every response processed by \<^verbatim>\<open>token_handler\<close>, the stored
  token afterwards is the result of looking the cookie \<^verbatim>\<open>sessionToken\<close> up in that
  response: the cookie's value when the response carries one, and \<^verbatim>\<open>None\<close> when it
  carries none. Nothing else of the client changes.
\<close>

theorem token_handler_stores_cookie:
  "snd (token_handler self res) = self\<lparr>session_token := cookies res ''sessionToken''\<rparr>"
  by (simp add: token_handler_def Let_def split: option.splits)

theorem token_handler_stores_cookie_witness:
  "session_token (snd (token_handler (client []) (token_response 200 ''ok'' ''77''))) = Some ''77''"
  using token_handler_stores_cookie [of "client []" "token_response 200 ''ok'' ''77''"]
  by (simp add: client_defs)

subsection \<open>RPC primitives\<close>

text \<open>
  Claim C9: \<^verbatim>\<open>xml_setter\<close> without a params container fails (with \<^verbatim>\<open>TypeError\<close>) and
  sends nothing: the client is unchanged. With a container, the empty one included,
  exactly one request is issued, a POST to the setter path of the device.
\<close>

theorem xml_setter_params:
  "xml_setter self fn None =
     (Inl (TypeError ''NoneType object does not support item assignment''), self, None) \<and>
   (\<exists>req. sent (fst (snd (xml_setter self fn (Some ps)))) = sent self @ [req] \<and>
      req_method req = ''POST'' \<and>
      req_url req = ''http://'' @ router_ip self @ ''/xml/setter.xml'')"
proof -
  have a: "xml_setter self fn None =
     (Inl (TypeError ''NoneType object does not support item assignment''), self, None)"
    by (simp add: xml_setter_def)
  have b: "sent (fst (snd (xml_setter self fn (Some ps)))) =
      sent (fst (snd (post self ''/xml/setter.xml'' (dict_setitem ps ''fun'' fn))))"
    by (simp add: xml_setter_def split: prod.splits)
  show ?thesis
    unfolding b post_sent using a by (simp add: url_def)
qed

theorem xml_setter_params_witness:
  "fst (xml_setter (client []) (PSet LOGOUT) None) =
     Inl (TypeError ''NoneType object does not support item assignment'') \<and>
   sent (fst (snd (xml_setter (client []) (PSet LOGOUT) None))) = [] \<and>
   (\<exists>req. sent (fst (snd (xml_setter (client []) (PSet LOGOUT) (Some [])))) = [req] \<and>
      req_method req = ''POST'' \<and> req_url req = ''http://192.168.0.1/xml/setter.xml'')"
  using xml_setter_params [of "client []" "PSet LOGOUT" "[]"]
  by (simp add: client_defs)

text \<open>
  Claim C10: \<^verbatim>\<open>xml_getter\<close> and \<^verbatim>\<open>xml_setter\<close> change the caller's dictionary in
  place. After the call it is the caller's dictionary without the key \<^verbatim>\<open>fun\<close>: an
  entry \<^verbatim>\<open>fun\<close> of the caller is lost, and every other entry keeps its value and
  its place.
\<close>

theorem xml_calls_mutate_params:
  "snd (snd (xml_getter self fn ps)) = dict_del ps ''fun'' \<and>
   snd (snd (xml_setter self fn (Some ps))) = Some (dict_del ps ''fun'') \<and>
   \<not> dict_contains (dict_del ps ''fun'') ''fun'' \<and>
   (\<forall>k. k \<noteq> ''fun'' \<longrightarrow> dict_get (dict_del ps ''fun'') k = dict_get ps k) \<and>
   dict_del ps ''fun'' = filter (\<lambda>kv. fst kv \<noteq> ''fun'') ps"
proof -
  have g: "snd (snd (xml_getter self fn ps)) = dict_del ps ''fun''"
    by (simp add: xml_getter_def post_params dict_del_setitem)
  have s: "snd (snd (xml_setter self fn (Some ps))) = Some (dict_del ps ''fun'')"
    using post_params [of self "''/xml/setter.xml''" "dict_setitem ps ''fun'' fn"]
    by (auto simp: xml_setter_def dict_del_setitem split: prod.splits)
  have n: "\<not> dict_contains (dict_del ps ''fun'') ''fun''"
    by (simp add: dict_contains_def dict_get_del)
  have o: "\<forall>k. k \<noteq> ''fun'' \<longrightarrow> dict_get (dict_del ps ''fun'') k = dict_get ps k"
    by (simp add: dict_get_del_other)
  have f: "dict_del ps ''fun'' = filter (\<lambda>kv. fst kv \<noteq> ''fun'') ps"
    by (simp add: dict_del_def)
  from g s n o f show ?thesis by blast
qed

theorem xml_calls_mutate_params_witness:
  "snd (snd (xml_getter (client []) (PGet FORWARDING)
       [(''a'', PInt 1), (''fun'', PStr ''mine''), (''b'', PInt 2)]))
     = [(''a'', PInt 1), (''b'', PInt 2)] \<and>
   snd (snd (xml_setter (client []) (PSet LANGUAGE) (Some [(''lang'', PStr ''en'')])))
     = Some [(''lang'', PStr ''en'')]"
  using xml_calls_mutate_params [of "client []" "PGet FORWARDING"
          "[(''a'', PInt 1), (''fun'', PStr ''mine''), (''b'', PInt 2)]"]
        xml_calls_mutate_params [of "client []" "PSet LANGUAGE" "[(''lang'', PStr ''en'')]"]
  by (simp add: dict_del_def)

subsection \<open>Login\<close>

text \<open>
  Claim C4 at an input where the code departs from it: the device answers the login
  with status 500 and no header \<^verbatim>\<open>Location\<close>. The claim asks for the error of an
  unknown login failure; \<^verbatim>\<open>res.headers['Location']\<close> raises \<^verbatim>\<open>KeyError\<close> first.
\<close>

theorem login_without_location:
  "fst (login sid_parser (client [Resp (plain_response 500 [])]) None)
     = Inl (KeyError ''location'')"
  by (simp add: client_defs call_defs login_def truthy_def)

subsection \<open>Configuration restore\<close>

text \<open>
  Claim C5 at an input where the code departs from it: the device answers the upload
  with status 200, and \<^verbatim>\<open>restore\<close> gives \<^verbatim>\<open>None\<close>, not that response, since
  \<^verbatim>\<open>post_binary\<close> returns nothing. The request itself is issued as the claim says.
\<close>

theorem restore_returns_none:
  "fst (restore (client [Resp (plain_response 200 ''ok'')]) ''abc'') = Inr None \<and>
   fst (post_binary (client [Resp (plain_response 200 ''ok'')])
          ''/xml/getter.xml?Restore=3'' ''abc'' ''Config_Restore.bin'') = Inr None \<and>
   map req_url (sent (snd (restore (client [Resp (plain_response 200 ''ok'')]) ''abc'')))
     = [''http://192.168.0.1/xml/getter.xml?Restore=3''] \<and>
   map req_headers (sent (snd (restore (client [Resp (plain_response 200 ''ok'')]) ''abc'')))
     = [[(''Content-Disposition'',
            ''form-data; name='' @ [CHR 0x22] @ ''file'' @ [CHR 0x22] @ ''; filename=''
              @ [CHR 0x22] @ ''Config_Restore.bin'' @ [CHR 0x22]),
         (''Content-Type'', ''application/octet-stream'')]]"
  by (simp add: client_defs restore_def post_binary_def session_post_def token_handler_def
        url_def str_int_def str_nat.simps)

subsection \<open>Transport Session: the order of the fields\<close>

text \<open>
  Claim C3 fails as stated, in two ways. A dictionary of the caller that holds the
  key \<^verbatim>\<open>token\<close> overwrites the value of the first field in
  \<^verbatim>\<open>data.update(_data)\<close>: the session holds the token \<open>1234\<close>, and the first field
  the device receives is \<open>token=forged\<close>. And while the session token is \<^verbatim>\<open>None\<close>,
  the device receives no field \<^verbatim>\<open>token\<close> at all: the body starts with the caller's
  field.
\<close>

theorem post_token_override_counterexample:
  "session_token (client []) = Some ''1234'' \<and>
   map serialized (sent (fst (snd (post (client []) ''/xml/setter.xml''
        [(''token'', PStr ''forged''), (''a'', PInt 1)]))))
     = [[(''token'', PStr ''forged''), (''a'', PInt 1)]] \<and>
   map serialized (sent (fst (snd (post ((client [])\<lparr>session_token := None\<rparr>)
        ''/xml/setter.xml'' [(''lang'', PStr ''en'')]))))
     = [[(''lang'', PStr ''en'')]]"
  by (simp add: client_defs call_defs serialized_def encode_params_def)

text \<open>
  Claim C3, amended: for every call of \<^verbatim>\<open>post\<close> with a dictionary (its keys are
  distinct), one request is issued, with redirect following disabled and the
  configured timeout. The fields handed to the library are, in this order:
  \<^verbatim>\<open>token\<close>, whose value is the current session token unless the caller's
  dictionary has an entry \<^verbatim>\<open>token\<close>, which then gives the value; \<^verbatim>\<open>fun\<close>, if the
  caller's dictionary has it; the remaining entries of the caller other than
  \<^verbatim>\<open>token\<close>, in the caller's order. The serialized body holds these fields in this
  order without those whose value is \<^verbatim>\<open>None\<close>: so it starts with the field
  \<^verbatim>\<open>token\<close> exactly when that value is not \<^verbatim>\<open>None\<close>, and carries no field
  \<^verbatim>\<open>token\<close> while the session token is \<^verbatim>\<open>None\<close> and the caller gives none.
\<close>

theorem post_field_order:
  assumes "distinct (map fst d)"
  shows "sent (fst (snd (post self path d))) = sent self @
     [\<lparr>req_method = ''POST'', req_url = url self path,
       req_body = Form
         ((''token'', case dict_get d ''token'' of
                        None \<Rightarrow> of_opt_str (session_token self) | Some t \<Rightarrow> t)
          # (case dict_get d ''fun'' of None \<Rightarrow> [] | Some f \<Rightarrow> [(''fun'', f)])
          @ filter (\<lambda>kv. fst kv \<noteq> ''fun'' \<and> fst kv \<noteq> ''token'') d),
       req_headers = [], allow_redirects = False, req_timeout = Some (timeout self)\<rparr>] \<and>
    serialized (last (sent (fst (snd (post self path d))))) =
      filter (\<lambda>kv. snd kv \<noteq> PNone)
         ((''token'', case dict_get d ''token'' of
                        None \<Rightarrow> of_opt_str (session_token self) | Some t \<Rightarrow> t)
          # (case dict_get d ''fun'' of None \<Rightarrow> [] | Some f \<Rightarrow> [(''fun'', f)])
          @ filter (\<lambda>kv. fst kv \<noteq> ''fun'' \<and> fst kv \<noteq> ''token'') d) \<and>
    (dict_get d ''token'' = None \<and> session_token self = None \<longrightarrow>
       ''token'' \<notin> fst ` set (serialized (last (sent (fst (snd (post self path d))))))) \<and>
    (\<forall>t. dict_get d ''token'' = None \<and> session_token self = Some t \<longrightarrow>
       hd (serialized (last (sent (fst (snd (post self path d)))))) = (''token'', PStr t))"
proof -
  let ?L = "(''token'', case dict_get d ''token'' of
                        None \<Rightarrow> of_opt_str (session_token self) | Some t \<Rightarrow> t)
          # (case dict_get d ''fun'' of None \<Rightarrow> [] | Some f \<Rightarrow> [(''fun'', f)])
          @ filter (\<lambda>kv. fst kv \<noteq> ''fun'' \<and> fst kv \<noteq> ''token'') d"
  have a: "sent (fst (snd (post self path d))) = sent self @
     [\<lparr>req_method = ''POST'', req_url = url self path, req_body = Form ?L,
       req_headers = [], allow_redirects = False, req_timeout = Some (timeout self)\<rparr>]"
    unfolding post_sent post_data_fields [OF assms] ..
  have b: "serialized (last (sent (fst (snd (post self path d))))) =
      filter (\<lambda>kv. snd kv \<noteq> PNone) ?L"
    unfolding a by (simp add: serialized_def encode_params_def)
  have c: "''token'' \<notin> fst ` set (serialized (last (sent (fst (snd (post self path d))))))"
    if "dict_get d ''token'' = None \<and> session_token self = None"
    unfolding b using that by (auto simp: of_opt_str_def split: option.splits)
  have e: "hd (serialized (last (sent (fst (snd (post self path d)))))) = (''token'', PStr t)"
    if "dict_get d ''token'' = None \<and> session_token self = Some t" for t
    unfolding b using that by (simp add: of_opt_str_def)
  from a b c e show ?thesis by blast
qed

theorem post_field_order_witness:
  "distinct (map fst [(''Username'', PStr ''admin''), (''fun'', PSet LOGIN),
                      (''Password'', PNone)]) \<and>
   sent (fst (snd (post (client []) ''/xml/setter.xml''
      [(''Username'', PStr ''admin''), (''fun'', PSet LOGIN), (''Password'', PNone)])))
   = [\<lparr>req_method = ''POST'', req_url = ''http://192.168.0.1/xml/setter.xml'',
       req_body = Form [(''token'', PStr ''1234''), (''fun'', PSet LOGIN),
                        (''Username'', PStr ''admin''), (''Password'', PNone)],
       req_headers = [], allow_redirects = False, req_timeout = Some 10\<rparr>] \<and>
   serialized (last (sent (fst (snd (post (client []) ''/xml/setter.xml''
      [(''Username'', PStr ''admin''), (''fun'', PSet LOGIN), (''Password'', PNone)])))))
   = [(''token'', PStr ''1234''), (''fun'', PSet LOGIN), (''Username'', PStr ''admin'')]"
  using post_field_order [of "[(''Username'', PStr ''admin''), (''fun'', PSet LOGIN),
                      (''Password'', PNone)]" "client []" "''/xml/setter.xml''"]
  by (simp add: client_defs url_def dict_get_def of_opt_str_def serialized_def
        encode_params_def)

subsection \<open>Reboot and factory reset\<close>

text \<open>
  Claim C6: if the setter call of \<^verbatim>\<open>reboot\<close> raises a read timeout, \<^verbatim>\<open>reboot\<close>
  returns \<^verbatim>\<open>None\<close> instead of raising; every other transport failure of that call is
  raised to the caller. In \<^verbatim>\<open>factory_reset\<close>, once the snapshot has been read, a read
  timeout of the reset call is tolerated in the same way (the snapshot is returned),
  and every other transport failure of the reset call is raised.
\<close>

theorem reboot_factory_reset_timeouts:
  "(shd (wire self) = Fail e \<longrightarrow>
      fst (reboot self) = (if e = ReadTimeout then Inr None else Inl (RequestException e))) \<and>
   (fst (xml_getter self (PGet DEFAULTVALUE) []) = Inr snap \<and> shd (stl (wire self)) = Fail e \<longrightarrow>
      fst (factory_reset self) = (if e = ReadTimeout then Inr snap else Inl (RequestException e)))"
proof -
  have r: "fst (reboot self) = (if e = ReadTimeout then Inr None else Inl (RequestException e))"
    if "shd (wire self) = Fail e"
    using that xml_setter_result [of self "PSet REBOOT" "[]"]
    by (cases e) (auto simp: reboot_def split: prod.splits sum.splits error.splits
          transport_error.splits)
  have f: "fst (factory_reset self) = (if e = ReadTimeout then Inr snap else Inl (RequestException e))"
    if g: "fst (xml_getter self (PGet DEFAULTVALUE) []) = Inr snap"
      and w: "shd (stl (wire self)) = Fail e"
  proof -
    obtain self1 d where x: "xml_getter self (PGet DEFAULTVALUE) [] = (Inr snap, self1, d)"
      using g by (cases "xml_getter self (PGet DEFAULTVALUE) []") auto
    have "wire self1 = stl (wire self)"
      using xml_getter_wire [of self "PGet DEFAULTVALUE" "[]"] x by simp
    then have "fst (xml_setter self1 (PSet FACTORY_RESET) (Some [])) = Inl (RequestException e)"
      using w by (simp add: xml_setter_result)
    then show ?thesis
      using x by (cases e) (auto simp: factory_reset_def split: prod.splits sum.splits
          error.splits transport_error.splits)
  qed
  from r f show ?thesis by blast
qed


theorem reboot_factory_reset_timeouts_witness:
  "shd (wire (client [Fail ReadTimeout])) = Fail ReadTimeout \<and>
   fst (reboot (client [Fail ReadTimeout])) = Inr None \<and>
   shd (wire (client [Fail ConnectTimeout])) = Fail ConnectTimeout \<and>
   fst (reboot (client [Fail ConnectTimeout])) = Inl (RequestException ConnectTimeout) \<and>
   fst (xml_getter (client [Resp (plain_response 200 ''defaults''), Fail ReadTimeout])
          (PGet DEFAULTVALUE) []) = Inr (plain_response 200 ''defaults'') \<and>
   shd (stl (wire (client [Resp (plain_response 200 ''defaults''), Fail ReadTimeout])))
     = Fail ReadTimeout \<and>
   fst (factory_reset (client [Resp (plain_response 200 ''defaults''), Fail ReadTimeout]))
     = Inr (plain_response 200 ''defaults'')"
  using reboot_factory_reset_timeouts [of "client [Fail ReadTimeout]" ReadTimeout]
    reboot_factory_reset_timeouts [of "client [Fail ConnectTimeout]" ConnectTimeout]
    reboot_factory_reset_timeouts
      [of "client [Resp (plain_response 200 ''defaults''), Fail ReadTimeout]" ReadTimeout
          "plain_response 200 ''defaults''"]
  by (simp add: client_defs call_defs)

text \<open>
  Claim C7: \<^verbatim>\<open>factory_reset\<close> first issues the getter call for the default values,
  and only after it has returned issues the reset setter call, which carries the
  token of the snapshot's response. If the getter call raises, no reset is sent. The
  value \<^verbatim>\<open>factory_reset\<close> returns is that snapshot, and it does return it when the
  reset call returns a response or times out.
\<close>

theorem factory_reset_snapshot_first:
  "(\<exists>rest. sent (snd (factory_reset self)) = sent self @
       \<lparr>req_method = ''POST'', req_url = ''http://'' @ router_ip self @ ''/xml/getter.xml'',
        req_body = Form [(''token'', of_opt_str (session_token self)),
                         (''fun'', PGet DEFAULTVALUE)],
        req_headers = [], allow_redirects = False, req_timeout = Some (timeout self)\<rparr> # rest) \<and>
   (\<forall>e. fst (xml_getter self (PGet DEFAULTVALUE) []) = Inl e \<longrightarrow>
      fst (factory_reset self) = Inl e \<and>
      length (sent (snd (factory_reset self))) = length (sent self) + 1) \<and>
   (fst (xml_getter self (PGet DEFAULTVALUE) []) = Inr snap \<longrightarrow>
      sent (snd (factory_reset self)) = sent self @
        [\<lparr>req_method = ''POST'', req_url = ''http://'' @ router_ip self @ ''/xml/getter.xml'',
          req_body = Form [(''token'', of_opt_str (session_token self)),
                           (''fun'', PGet DEFAULTVALUE)],
          req_headers = [], allow_redirects = False, req_timeout = Some (timeout self)\<rparr>,
         \<lparr>req_method = ''POST'', req_url = ''http://'' @ router_ip self @ ''/xml/setter.xml'',
          req_body = Form [(''token'', of_opt_str (cookies snap ''sessionToken'')),
                           (''fun'', PSet FACTORY_RESET)],
          req_headers = [], allow_redirects = False, req_timeout = Some (timeout self)\<rparr>] \<and>
      (\<forall>x. fst (factory_reset self) = Inr x \<longrightarrow> x = snap) \<and>
      (shd (stl (wire self)) = Fail ReadTimeout \<or>
         (\<exists>r. shd (stl (wire self)) = Resp r \<and>
              \<not> (status_code r = 302 \<and> headers r ''Location'' = None)) \<longrightarrow>
       fst (factory_reset self) = Inr snap))"
proof -
  obtain r self1 d where g: "xml_getter self (PGet DEFAULTVALUE) [] = (r, self1, d)"
    by (cases "xml_getter self (PGet DEFAULTVALUE) []") auto
  have s1: "sent self1 = sent self @
       [\<lparr>req_method = ''POST'', req_url = ''http://'' @ router_ip self @ ''/xml/getter.xml'',
         req_body = Form [(''token'', of_opt_str (session_token self)),
                          (''fun'', PGet DEFAULTVALUE)],
         req_headers = [], allow_redirects = False, req_timeout = Some (timeout self)\<rparr>]"
    using xml_getter_empty_sent [of self "PGet DEFAULTVALUE"] g by simp
  show ?thesis
  proof (cases r)
    case (Inl e)
    then have "factory_reset self = (Inl e, self1)"
      using g by (simp add: factory_reset_def)
    then show ?thesis using g Inl s1 by simp
  next
    case (Inr snap')
    obtain r2 self2 d2 where
      x: "xml_setter self1 (PSet FACTORY_RESET) (Some []) = (r2, self2, d2)"
      by (cases "xml_setter self1 (PSet FACTORY_RESET) (Some [])") auto
    have w: "shd (wire self) = Resp snap'"
      using xml_getter_Inr [of self "PGet DEFAULTVALUE" "[]" snap'] g Inr by simp
    have w1: "wire self1 = stl (wire self)"
      using xml_getter_wire [of self "PGet DEFAULTVALUE" "[]"] g by simp
    have t1: "session_token self1 = cookies snap' ''sessionToken''"
      using xml_getter_token [of self "PGet DEFAULTVALUE" "[]"] g w by simp
    have i1: "router_ip self1 = router_ip self" "timeout self1 = timeout self"
      using g by (auto simp: xml_getter_def post_def session_post_def token_handler_def Let_def
          split: prod.splits outcome.splits option.splits if_splits)
    have s2: "sent self2 = sent self1 @
        [\<lparr>req_method = ''POST'', req_url = ''http://'' @ router_ip self @ ''/xml/setter.xml'',
          req_body = Form [(''token'', of_opt_str (cookies snap' ''sessionToken'')),
                           (''fun'', PSet FACTORY_RESET)],
          req_headers = [], allow_redirects = False, req_timeout = Some (timeout self)\<rparr>]"
      using xml_setter_empty_sent [of self1 "PSet FACTORY_RESET"] x t1 i1 by simp
    have st: "snd (factory_reset self) = self2"
      using g Inr x by (auto simp: factory_reset_def split: sum.splits error.splits
          transport_error.splits)
    have val: "fst (factory_reset self) = Inr x' \<Longrightarrow> x' = snap'" for x'
      using g Inr x by (auto simp: factory_reset_def split: sum.splits error.splits
          transport_error.splits)
    have r2: "r2 = (case shd (stl (wire self)) of
        Fail e \<Rightarrow> Inl (RequestException e)
      | Resp res \<Rightarrow>
          if status_code res = 302 \<and> headers res ''Location'' = None
          then Inl (KeyError ''location'') else Inr res)"
      using xml_setter_result [of self1 "PSet FACTORY_RESET" "[]"] x w1 by simp
    have ok: "fst (factory_reset self) = Inr snap'"
      if "shd (stl (wire self)) = Fail ReadTimeout \<or>
         (\<exists>r. shd (stl (wire self)) = Resp r \<and>
              \<not> (status_code r = 302 \<and> headers r ''Location'' = None))"
      using that g Inr x r2 by (auto simp: factory_reset_def)
    show ?thesis
      using g Inr s1 s2 st val ok by auto
  qed
qed

theorem factory_reset_snapshot_first_witness:
  "fst (xml_getter (client [Resp (token_response 200 ''defaults'' ''77''), Fail ReadTimeout])
          (PGet DEFAULTVALUE) []) = Inr (token_response 200 ''defaults'' ''77'') \<and>
   shd (stl (wire (client [Resp (token_response 200 ''defaults'' ''77''), Fail ReadTimeout])))
     = Fail ReadTimeout \<and>
   sent (snd (factory_reset
       (client [Resp (token_response 200 ''defaults'' ''77''), Fail ReadTimeout]))) =
     [\<lparr>req_method = ''POST'', req_url = ''http://192.168.0.1/xml/getter.xml'',
       req_body = Form [(''token'', PStr ''1234''), (''fun'', PGet DEFAULTVALUE)],
       req_headers = [], allow_redirects = False, req_timeout = Some 10\<rparr>,
      \<lparr>req_method = ''POST'', req_url = ''http://192.168.0.1/xml/setter.xml'',
       req_body = Form [(''token'', PStr ''77''), (''fun'', PSet FACTORY_RESET)],
       req_headers = [], allow_redirects = False, req_timeout = Some 10\<rparr>] \<and>
   fst (factory_reset (client [Resp (token_response 200 ''defaults'' ''77''), Fail ReadTimeout]))
     = Inr (token_response 200 ''defaults'' ''77'')"
  using factory_reset_snapshot_first
      [of "client [Resp (token_response 200 ''defaults'' ''77''), Fail ReadTimeout]"
          "token_response 200 ''defaults'' ''77''"]
  by (simp add: client_defs call_defs)

subsection \<open>Function Scanner\<close>

text \<open>
  Claim C2 fails as stated: a probe with an empty body does advance the cursor when
  the session is still valid and the status is 200. The probe at position 7 returns
  an empty body, the validity probe returns 200, and the cursor is 8 afterwards.
\<close>

theorem scan_empty_body_advances_counterexample:
  "fst (xml_getter (client [Resp (plain_response 200 []), Resp (plain_response 200 ''info'')])
          (PInt (current_pos scanner7)) []) = Inr (plain_response 200 []) \<and>
   res_text (plain_response 200 []) = [] \<and>
   current_pos scanner7 = 7 \<and>
   current_pos (snd (snd (scan_body sid_parser
      (client [Resp (plain_response 200 []), Resp (plain_response 200 ''info'')]) scanner7))) = 8"
  by (simp add: client_defs call_defs scan_body_def scan_status_def is_valid_session_def)

text \<open>
  Claim C2, amended: in every pass through the loop of \<^verbatim>\<open>scan\<close>, which starts by
  probing the position of the cursor, the cursor advances by one exactly when the
  probe returned a response with status 200 whose body is not empty, or whose body
  is empty while the validity probe reports a valid session; otherwise it stays. When
  the body is empty and the validity probe reports the session invalid, the cursor does
  not advance: \<^verbatim>\<open>last_login\<close> is set to the cursor, \<^verbatim>\<open>login\<close> is called with the
  scanner's key, and when it succeeds the loop goes on with the same cursor, so that
  the same position is probed again.
\<close>

theorem scan_step_cursor:
  assumes "scan_body parse_qs modem self = (r, modem', self')"
  shows
   "(current_pos self' = current_pos self + 1 \<longleftrightarrow>
       (\<exists>res m1 d. xml_getter modem (PInt (current_pos self)) [] = (Inr res, m1, d) \<and>
          status_code res = 200 \<and>
          (res_text res \<noteq> [] \<or> (\<exists>m2. is_valid_session m1 = (Inr True, m2))))) \<and>
    (current_pos self' \<noteq> current_pos self + 1 \<longrightarrow> current_pos self' = current_pos self) \<and>
    (\<forall>res m1 d m2.
        xml_getter modem (PInt (current_pos self)) [] = (Inr res, m1, d) \<and>
        res_text res = [] \<and> is_valid_session m1 = (Inr False, m2) \<longrightarrow>
        self' = self\<lparr>last_login := current_pos self\<rparr> \<and>
        (r, modem') =
           (case login parse_qs m2 (scan_key self) of
              (Inl e, m3) \<Rightarrow> (Inl e, m3)
            | (Inr x, m3) \<Rightarrow> (Inr res, m3)) \<and>
        (\<forall>x. r = Inr x \<longrightarrow> scan_cond (Some x))) \<and>
    (\<exists>rest. sent modem' = sent modem @
       \<lparr>req_method = ''POST'', req_url = ''http://'' @ router_ip modem @ ''/xml/getter.xml'',
        req_body = Form [(''token'', of_opt_str (session_token modem)),
                         (''fun'', PInt (current_pos self))],
        req_headers = [], allow_redirects = False, req_timeout = Some (timeout modem)\<rparr> # rest)"
proof -
  have a: "current_pos self' = current_pos self + 1 \<longleftrightarrow>
       (\<exists>res m1 d. xml_getter modem (PInt (current_pos self)) [] = (Inr res, m1, d) \<and>
          status_code res = 200 \<and>
          (res_text res \<noteq> [] \<or> (\<exists>m2. is_valid_session m1 = (Inr True, m2))))"
    using assms
    by (auto simp: scan_body_def scan_status_def Let_def split: prod.splits sum.splits if_splits)
  have b: "current_pos self' \<noteq> current_pos self + 1 \<longrightarrow> current_pos self' = current_pos self"
    using assms
    by (auto simp: scan_body_def scan_status_def Let_def split: prod.splits sum.splits if_splits)
  have c: "\<forall>res m1 d m2.
        xml_getter modem (PInt (current_pos self)) [] = (Inr res, m1, d) \<and>
        res_text res = [] \<and> is_valid_session m1 = (Inr False, m2) \<longrightarrow>
        self' = self\<lparr>last_login := current_pos self\<rparr> \<and>
        (r, modem') =
           (case login parse_qs m2 (scan_key self) of
              (Inl e, m3) \<Rightarrow> (Inl e, m3)
            | (Inr x, m3) \<Rightarrow> (Inr res, m3)) \<and>
        (\<forall>x. r = Inr x \<longrightarrow> scan_cond (Some x))"
    using assms
    by (auto simp: scan_body_def scan_cond_def Let_def split: prod.splits sum.splits if_splits)
  have d: "\<exists>rest. sent modem' = sent modem @
       \<lparr>req_method = ''POST'', req_url = ''http://'' @ router_ip modem @ ''/xml/getter.xml'',
        req_body = Form [(''token'', of_opt_str (session_token modem)),
                         (''fun'', PInt (current_pos self))],
        req_headers = [], allow_redirects = False, req_timeout = Some (timeout modem)\<rparr> # rest"
    using scan_body_probe [of parse_qs modem self] assms by simp
  from a b c d show ?thesis by blast
qed

theorem scan_step_cursor_witness:
  "fst (xml_getter (client stale_device) (PInt (current_pos scanner7)) [])
     = Inr (plain_response 200 []) \<and>
   fst (is_valid_session (fst (snd (xml_getter (client stale_device) (PInt 7) [])))) = Inr False \<and>
   snd (snd (scan_body sid_parser (client stale_device) scanner7))
     = scanner7\<lparr>last_login := 7\<rparr> \<and>
   current_pos (snd (snd (scan_body sid_parser (client stale_device) scanner7))) = 7"
  using scan_step_cursor
    [where parse_qs = sid_parser and modem = "client stale_device" and self = scanner7
       and r = "fst (scan_body sid_parser (client stale_device) scanner7)"
       and modem' = "fst (snd (scan_body sid_parser (client stale_device) scanner7))"
       and self' = "snd (snd (scan_body sid_parser (client stale_device) scanner7))"]
  by (simp add: client_defs call_defs is_valid_session_def)

text \<open>
  The recovery scenario as a whole run of \<^verbatim>\<open>scan\<close>: position 7 is probed, the
  session is found stale, the client logs in, position 7 is probed again, and the scan
  returns with the cursor at 8.
\<close>

lemma scan_relogin_example:
  "map req_body (sent (fst (snd (the (scan sid_parser (client stale_device) scanner7))))) =
     [Form [(''token'', PStr ''1234''), (''fun'', PInt 7)],
      Form [(''token'', PNone), (''fun'', PGet CM_SYSTEM_INFO)],
      Form [(''token'', PNone), (''fun'', PSet LOGIN), (''Username'', PStr ''admin''),
            (''Password'', PStr ''secret'')],
      Form [(''token'', PNone), (''fun'', PInt 7)]] \<and>
   fst (the (scan sid_parser (client stale_device) scanner7))
     = Inr (Some (plain_response 200 ''<x/>'')) \<and>
   snd (snd (the (scan sid_parser (client stale_device) scanner7)))
     = \<lparr>current_pos = 8, scan_key = Some ''secret'', last_login = 7\<rparr>"
  by (simp add: scan_def scan_loop.simps scan_cond_def response_ok_def scan_body_def
        scan_status_def is_valid_session_def login_def truthy_def Let_def
        client_defs call_defs)

text \<open>
  Claim C8: in every pass of the loop of \<^verbatim>\<open>scan\<close>, the first of a call or a later
  one, from every state: when the probe returned a response whose status is not 200,
  and its body is not empty or the validity probe reports a valid session, the pass
  raises \<^verbatim>\<open>ValueError\<close> with the text \<open>HTTP\<close> and that status, and the loop, and so
  \<^verbatim>\<open>scan\<close>, returns with that error at once. The scanner is unchanged (the cursor
  and \<^verbatim>\<open>last_login\<close> keep their values), and the pass sent nothing but the probe and,
  for an empty body, the validity probe: no login, no retry.
\<close>

theorem scan_http_error_fatal:
  assumes "scan_cond prev"
    and "xml_getter modem (PInt (current_pos self)) [] = (Inr res, modem1, d)"
    and "status_code res \<noteq> 200"
    and "res_text res \<noteq> [] \<and> modem2 = modem1 \<or>
         res_text res = [] \<and> is_valid_session modem1 = (Inr True, modem2)"
  shows "scan_body parse_qs modem self =
           (Inl (ValueError (''HTTP '' @ str_int (status_code res))), modem2, self) \<and>
         scan_loop parse_qs prev modem self =
           Some (Inl (ValueError (''HTTP '' @ str_int (status_code res))), modem2, self) \<and>
         scan parse_qs modem self =
           Some (Inl (ValueError (''HTTP '' @ str_int (status_code res))), modem2, self) \<and>
         sent modem2 = sent modem @
           \<lparr>req_method = ''POST'', req_url = ''http://'' @ router_ip modem @ ''/xml/getter.xml'',
            req_body = Form [(''token'', of_opt_str (session_token modem)),
                             (''fun'', PInt (current_pos self))],
            req_headers = [], allow_redirects = False, req_timeout = Some (timeout modem)\<rparr>
           # (if res_text res = [] then
                [\<lparr>req_method = ''POST'',
                  req_url = ''http://'' @ router_ip modem1 @ ''/xml/getter.xml'',
                  req_body = Form [(''token'', of_opt_str (session_token modem1)),
                                   (''fun'', PGet CM_SYSTEM_INFO)],
                  req_headers = [], allow_redirects = False,
                  req_timeout = Some (timeout modem1)\<rparr>]
              else [])"
proof -
  have b: "scan_body parse_qs modem self =
      (Inl (ValueError (''HTTP '' @ str_int (status_code res))), modem2, self)"
    using assms(2-4) by (auto simp: scan_body_def scan_status_def)
  have l: "scan_loop parse_qs prev modem self =
      Some (Inl (ValueError (''HTTP '' @ str_int (status_code res))), modem2, self)"
    using assms(1) b by (simp add: scan_loop_pass)
  have s1: "sent modem1 = sent modem @
      [\<lparr>req_method = ''POST'', req_url = ''http://'' @ router_ip modem @ ''/xml/getter.xml'',
        req_body = Form [(''token'', of_opt_str (session_token modem)),
                         (''fun'', PInt (current_pos self))],
        req_headers = [], allow_redirects = False, req_timeout = Some (timeout modem)\<rparr>]"
    using xml_getter_empty_sent [of modem "PInt (current_pos self)"] assms(2) by simp
  have s2: "sent modem2 = sent modem1 @
        [\<lparr>req_method = ''POST'',
                  req_url = ''http://'' @ router_ip modem1 @ ''/xml/getter.xml'',
                  req_body = Form [(''token'', of_opt_str (session_token modem1)),
                                   (''fun'', PGet CM_SYSTEM_INFO)],
                  req_headers = [], allow_redirects = False,
                  req_timeout = Some (timeout modem1)\<rparr>]"
    if "res_text res = []"
    using that assms(4) is_valid_session_sent [of modem1] by auto
  show ?thesis
    using b l s1 s2 assms(4) by (auto simp: scan_unfold)
qed

text \<open>
  The witness is a later pass: position 7 is skipped (empty body, valid session),
  and the probe of position 8 returns status 500. The pass at position 8 raises, and
  so does the whole call of \<^verbatim>\<open>scan\<close> that started at position 7.
\<close>

theorem scan_http_error_fatal_witness:
  "scan_cond (Some (plain_response 200 [])) \<and>
   fst (xml_getter (fst (snd (scan_body sid_parser (client later_error_device) scanner7)))
          (PInt 8) []) = Inr (plain_response 500 ''oops'') \<and>
   status_code (plain_response 500 ''oops'') \<noteq> 200 \<and>
   res_text (plain_response 500 ''oops'') \<noteq> [] \<and>
   snd (snd (scan_body sid_parser (client later_error_device) scanner7))
     = scanner7\<lparr>current_pos := 8\<rparr> \<and>
   fst (the (scan sid_parser (client later_error_device) scanner7))
     = Inl (ValueError ''HTTP 500'') \<and>
   snd (snd (the (scan sid_parser (client later_error_device) scanner7)))
     = scanner7\<lparr>current_pos := 8\<rparr> \<and>
   map req_body (sent (fst (snd (the (scan sid_parser (client later_error_device) scanner7)))))
     = [Form [(''token'', PStr ''1234''), (''fun'', PInt 7)],
        Form [(''token'', PNone), (''fun'', PGet CM_SYSTEM_INFO)],
        Form [(''token'', PNone), (''fun'', PInt 8)]]"
  using scan_http_error_fatal
    [where prev = "Some (plain_response 200 [])"
       and modem = "fst (snd (scan_body sid_parser (client later_error_device) scanner7))"
       and self = "scanner7\<lparr>current_pos := 8\<rparr>"
       and res = "plain_response 500 ''oops''"
       and ?modem1.0 = "fst (snd (xml_getter
             (fst (snd (scan_body sid_parser (client later_error_device) scanner7)))
             (PInt 8) []))"
       and d = "snd (snd (xml_getter
             (fst (snd (scan_body sid_parser (client later_error_device) scanner7)))
             (PInt 8) []))"
       and ?modem2.0 = "fst (snd (xml_getter
             (fst (snd (scan_body sid_parser (client later_error_device) scanner7)))
             (PInt 8) []))"
       and parse_qs = sid_parser]
  by (simp add: scan_unfold scan_cond_def response_ok_def scan_body_def scan_status_def
        is_valid_session_def Let_def client_defs call_defs str_int_def str_nat.simps)

end
